theory Spec2Isabelle
  imports Main "HOL-Library.Word"
begin

section \<open>Python strings\<close>

text \<open>
  A Python \<open>str\<close> is a sequence of Unicode code points, and \<open>len\<close>, slicing and
  comparison count code points. A code point is a natural number here, so that text decoded
  from Windows-1252 (which reaches U+20AC) or from UTF-8 is represented as Python has it.
  String literals of the source are written \<open>ustr ''...''\<close>.
\<close>

type_synonym str = "nat list"

definition ustr :: "string \<Rightarrow> str" where
  "ustr s = map of_char s"

text \<open>
  \<open>str.isspace\<close> on one code point: the code points CPython treats as whitespace, which
  are the ones \<open>str.rstrip()\<close> without argument removes.
\<close>

definition isspace :: "nat \<Rightarrow> bool" where
  "isspace c \<longleftrightarrow>
     (9 \<le> c \<and> c \<le> 13) \<or> (28 \<le> c \<and> c \<le> 32) \<or> c = 133 \<or> c = 160 \<or> c = 5760 \<or>
     (8192 \<le> c \<and> c \<le> 8202) \<or> c = 8232 \<or> c = 8233 \<or> c = 8239 \<or> c = 8287 \<or> c = 12288"

text \<open>\<open>s.rstrip()\<close>: the string without its trailing whitespace.\<close>

definition rstrip :: "str \<Rightarrow> str" where
  "rstrip s = rev (dropWhile isspace (rev s))"

text \<open>\<open>sep.join(xs)\<close>.\<close>

fun join :: "str \<Rightarrow> str list \<Rightarrow> str" where
  "join sep [] = []"
| "join sep [x] = x"
| "join sep (x # y # ys) = x @ sep @ join sep (y # ys)"

text \<open>
  \<open>s.split(sep)\<close> for a separator of one character, the only kind the source uses
  (\<open>'_'\<close> and \<open>'/'\<close>). The result is never empty: \<open>''.split('_')\<close> is \<open>['']\<close>.
\<close>

fun split_str :: "nat \<Rightarrow> str \<Rightarrow> str list" where
  "split_str sep [] = [[]]"
| "split_str sep (c # cs) =
     (if c = sep then [] # split_str sep cs
      else (case split_str sep cs of
              [] \<Rightarrow> [[c]]
            | w # ws \<Rightarrow> (c # w) # ws))"

text \<open>
  \<open>s.replace(old, new)\<close> for \<open>old\<close> of one character, the only kind the source uses
  (\<open>'-'\<close> and \<open>'<'\<close>).
\<close>

definition replace :: "nat \<Rightarrow> str \<Rightarrow> str \<Rightarrow> str" where
  "replace old new s = concat (map (\<lambda>c. if c = old then new else [c]) s)"

section \<open>Exceptions and the observable world\<close>

datatype exception =
  UnicodeDecodeError
| FileNotFoundError
| UnboundLocalError
| IndexError
| SystemExit nat

text \<open>
  What the program does to its environment. \<open>stdout\<close> and \<open>stderr\<close> hold the
  argument of every \<open>print\<close> call in order (each is written followed by a newline).
  \<open>handles\<close> is the table of file objects created by \<open>open\<close>, in order of creation:
  \<open>True\<close> while the object is open, \<open>False\<close> once \<open>close()\<close> was called on it.
  \<open>nlp_calls\<close> records the argument of every call of the pipeline \<open>NLP\<close>, in order.
\<close>

record world =
  stdout :: "str list"
  stderr :: "str list"
  handles :: "bool list"
  nlp_calls :: "str list"

definition world0 :: world where
  "world0 = \<lparr>stdout = [], stderr = [], handles = [], nlp_calls = []\<rparr>"

definition print :: "str \<Rightarrow> world \<Rightarrow> world" where
  "print s w = w\<lparr>stdout := stdout w @ [s]\<rparr>"

definition print_stderr :: "str \<Rightarrow> world \<Rightarrow> world" where
  "print_stderr s w = w\<lparr>stderr := stderr w @ [s]\<rparr>"

section \<open>Document segmenter\<close>

record Document =
  header :: str
  body :: str

text \<open>
  \<open>create_document\<close>: the keyword arguments are evaluated in the order written, the
  body first (a slice and a join, which cannot fail), then \<open>lines_of_document[0]\<close>, which
  raises IndexError on an empty list.
\<close>

definition create_document :: "str list \<Rightarrow> exception + Document" where
  "create_document lines_of_document =
     (let b = join (ustr '' '') (drop 1 lines_of_document)
      in case lines_of_document of
           [] \<Rightarrow> Inl IndexError
         | h # _ \<Rightarrow> Inr \<lparr>header = h, body = b\<rparr>)"

text \<open>\<open>xs[-1]\<close>: the last element, IndexError on an empty list.\<close>

definition index_last :: "'a list \<Rightarrow> exception + 'a" where
  "index_last xs = (if xs = [] then Inl IndexError else Inr (last xs))"

text \<open>
  The \<open>for\<close> loop of \<open>create_document_list\<close>, over the lines still to visit, with the
  two local lists \<open>document\<close> and \<open>documents\<close> as accumulators. The test
  \<open>line == '\n' or line == lines_of_file[-1]\<close> compares strings, and the second operand is
  evaluated only when the first is false.
\<close>

fun create_document_list_loop ::
  "str list \<Rightarrow> str list \<Rightarrow> str list \<Rightarrow> Document list \<Rightarrow> exception + Document list" where
  "create_document_list_loop lines_of_file [] document documents = Inr documents"
| "create_document_list_loop lines_of_file (line # rest) document documents =
     (let document = document @ [rstrip line] in
      case (if line = ustr ''\<newline>'' then Inr True
            else case index_last lines_of_file of
                   Inl e \<Rightarrow> Inl e
                 | Inr l \<Rightarrow> Inr (line = l)) of
        Inl e \<Rightarrow> Inl e
      | Inr True \<Rightarrow>
          (case create_document document of
             Inl e \<Rightarrow> Inl e
           | Inr d \<Rightarrow> create_document_list_loop lines_of_file rest [] (documents @ [d]))
      | Inr False \<Rightarrow> create_document_list_loop lines_of_file rest document documents)"

definition create_document_list :: "str list \<Rightarrow> exception + Document list" where
  "create_document_list lines_of_file =
     create_document_list_loop lines_of_file lines_of_file [] []"

text \<open>
  To state what the loop computes: \<open>boundary\<close> is the test of the loop on one line, and
  \<open>segments\<close> lists the Documents the loop still appends, given the lines to visit and
  the buffer. The lemma \<open>create_document_list_segments\<close> proves that the loop returns
  them.
\<close>

definition boundary :: "str list \<Rightarrow> str \<Rightarrow> bool" where
  "boundary lines_of_file line \<longleftrightarrow> line = ustr ''\<newline>'' \<or> line = last lines_of_file"

fun segments :: "str list \<Rightarrow> str list \<Rightarrow> str list \<Rightarrow> Document list" where
  "segments lines_of_file [] document = []"
| "segments lines_of_file (line # rest) document =
     (if boundary lines_of_file line
      then \<lparr>header = hd (document @ [rstrip line]),
            body = join (ustr '' '') (tl (document @ [rstrip line]))\<rparr> #
           segments lines_of_file rest []
      else segments lines_of_file rest (document @ [rstrip line]))"

definition ends_with_space :: "str \<Rightarrow> bool" where
  "ends_with_space s \<longleftrightarrow> s \<noteq> [] \<and> last s = of_char CHR '' ''"

section \<open>Annotation emitter\<close>

text \<open>
  The NLP pipeline (\<open>NLP = spacy.load(...)\<close>) is an external library: it is a parameter
  of the model, a function from a text to the analysed document. Of the analysed document
  the source reads \<open>doc.sents\<close> (the sentence spans, each with its \<open>text\<close>) and, by
  iterating over it, its tokens with \<open>text\<close>, \<open>pos_\<close> and \<open>lemma_\<close>. A span also carries
  the tokens the first pass gave it, which the source never reads.
\<close>

record token =
  tok_text :: str
  tok_pos :: str
  tok_lemma :: str

record span =
  span_text :: str
  span_tokens :: "token list"

record doc =
  sents :: "span list"
  tokens :: "token list"

type_synonym pipeline = "str \<Rightarrow> doc"

definition call_NLP :: "pipeline \<Rightarrow> str \<Rightarrow> world \<Rightarrow> doc \<times> world" where
  "call_NLP NLP s w = (NLP s, w\<lparr>nlp_calls := nlp_calls w @ [s]\<rparr>)"

text \<open>\<open>'{word}\t{pos}\t{lemma}'.format(word=token.text, pos=token.pos_, lemma=token.lemma_)\<close>\<close>

definition token_line :: "token \<Rightarrow> str" where
  "token_line t = tok_text t @ [9] @ tok_pos t @ [9] @ tok_lemma t"

text \<open>The body of the loop over \<open>doc.sents\<close>.\<close>

definition print_sentence :: "pipeline \<Rightarrow> str \<Rightarrow> span \<Rightarrow> world \<Rightarrow> world" where
  "print_sentence NLP tag sentence w =
     (let w1 = print tag w;
          (sent, w2) = call_NLP NLP (span_text sentence) w1;
          w3 = fold (\<lambda>t. print (token_line t)) (tokens sent) w2
      in print (replace (of_char CHR ''<'') (ustr ''</'') tag) w3)"

definition print_cwb :: "pipeline \<Rightarrow> str \<Rightarrow> str \<Rightarrow> world \<Rightarrow> world" where
  "print_cwb NLP document tag w =
     (let (d, w1) = call_NLP NLP document w
      in fold (print_sentence NLP tag) (sents d) w1)"

text \<open>
  The lines \<open>print_cwb\<close> writes, as a list: for each sentence the tag, a line for each
  token of the second analysis, and the closing tag. The lemma \<open>print_cwb_fields\<close>
  proves that the loops write exactly these.
\<close>

definition sentence_lines :: "pipeline \<Rightarrow> str \<Rightarrow> span \<Rightarrow> str list" where
  "sentence_lines NLP tag s =
     [tag] @ map token_line (tokens (NLP (span_text s))) @
     [replace (of_char CHR ''<'') (ustr ''</'') tag]"

definition cwb_lines :: "pipeline \<Rightarrow> str \<Rightarrow> str \<Rightarrow> str list" where
  "cwb_lines NLP document tag = concat (map (sentence_lines NLP tag) (sents (NLP document)))"

section \<open>Filename metadata\<close>

text \<open>\<open>xs[i]\<close> for an index \<open>i \<ge> 0\<close>: IndexError when out of range.\<close>

definition index :: "'a list \<Rightarrow> nat \<Rightarrow> exception + 'a" where
  "index xs i = (if i < length xs then Inr (xs ! i) else Inl IndexError)"

text \<open>
  \<open>print_header\<close>. The slice \<open>filename[0:10]\<close> is \<open>take 10\<close>, and \<open>filename[0:-4]\<close>
  is the filename without its last four characters (empty when it has fewer). The
  statements run in the order written, so \<open>date_list[1]\<close> and \<open>date_list[2]\<close> raise
  before anything is printed.
\<close>

definition print_header :: "str \<Rightarrow> world \<Rightarrow> exception + world" where
  \<open>print_header filename w =
     (let date_list = split_str (of_char CHR ''_'') (take 10 filename);
          name = ustr ''id="'' @
                 replace (of_char CHR ''-'') (ustr ''_'') (take (length filename - 4) filename) @
                 ustr ''"'';
          date = ustr ''date="'' @ join (ustr ''_'') date_list @ ustr ''"''
      in case index date_list 0 of
           Inl e \<Rightarrow> Inl e
         | Inr y \<Rightarrow>
        (let year = ustr ''year="'' @ y @ ustr ''"''
         in case index date_list 1 of
              Inl e \<Rightarrow> Inl e
            | Inr m \<Rightarrow>
           (let month = ustr ''month="'' @ m @ ustr ''"''
            in case index date_list 2 of
                 Inl e \<Rightarrow> Inl e
               | Inr d \<Rightarrow>
              (let day = ustr ''day="'' @ d @ ustr ''"'';
                   header = ustr ''<text '' @ name @ ustr '' '' @ date @ ustr '' '' @ year @
                            ustr '' '' @ month @ ustr '' '' @ day @ ustr ''>''
               in Inr (print header w)))))\<close>

definition print_footer :: "world \<Rightarrow> world" where
  "print_footer w = print (ustr ''</text>'') w"

section \<open>Reading the input file\<close>

text \<open>
  A file is a sequence of bytes. \<open>open\<close>, the two codecs and \<open>readlines\<close> belong to
  Python's standard library; they are modelled from its documentation, as far as the
  program depends on them.
\<close>

type_synonym byte = "8 word"

datatype encoding = UTF8 | CP1252

text \<open>
  The \<open>utf-8\<close> codec with \<open>errors='strict'\<close>: the well-formed byte sequences of the
  Unicode standard (no overlong form, no surrogate, nothing above U+10FFFF); anything
  else raises UnicodeDecodeError, which is \<open>None\<close> here.
\<close>

definition is_cont :: "nat \<Rightarrow> bool" where
  "is_cont b \<longleftrightarrow> 0x80 \<le> b \<and> b \<le> 0xBF"

fun utf8 :: "nat list \<Rightarrow> str option" where
  "utf8 [] = Some []"
| "utf8 (b0 # bs) =
     (if b0 < 0x80 then map_option ((#) b0) (utf8 bs)
      else if 0xC2 \<le> b0 \<and> b0 \<le> 0xDF then
        (case bs of
           b1 # r \<Rightarrow>
             if is_cont b1
             then map_option ((#) ((b0 - 0xC0) * 64 + (b1 - 0x80))) (utf8 r)
             else None
         | _ \<Rightarrow> None)
      else if 0xE0 \<le> b0 \<and> b0 \<le> 0xEF then
        (case bs of
           b1 # b2 # r \<Rightarrow>
             if (if b0 = 0xE0 then 0xA0 else 0x80) \<le> b1 \<and>
                b1 \<le> (if b0 = 0xED then 0x9F else 0xBF) \<and> is_cont b2
             then map_option
                    ((#) ((b0 - 0xE0) * 4096 + (b1 - 0x80) * 64 + (b2 - 0x80))) (utf8 r)
             else None
         | _ \<Rightarrow> None)
      else if 0xF0 \<le> b0 \<and> b0 \<le> 0xF4 then
        (case bs of
           b1 # b2 # b3 # r \<Rightarrow>
             if (if b0 = 0xF0 then 0x90 else 0x80) \<le> b1 \<and>
                b1 \<le> (if b0 = 0xF4 then 0x8F else 0xBF) \<and> is_cont b2 \<and> is_cont b3
             then map_option
                    ((#) ((b0 - 0xF0) * 262144 + (b1 - 0x80) * 4096 + (b2 - 0x80) * 64 +
                          (b3 - 0x80))) (utf8 r)
             else None
         | _ \<Rightarrow> None)
      else None)"

text \<open>
  The \<open>cp1252\<close> codec: bytes below 0x80 and from 0xA0 on map to the code point of the
  same number; 0x80 to 0x9F map by the table below, in which five bytes (0x81, 0x8D, 0x8F,
  0x90, 0x9D) are undefined and raise UnicodeDecodeError.
\<close>

definition cp1252_table :: "nat option list" where
  "cp1252_table =
     [Some 0x20AC, None,        Some 0x201A, Some 0x0192, Some 0x201E, Some 0x2026,
      Some 0x2020, Some 0x2021, Some 0x02C6, Some 0x2030, Some 0x0160, Some 0x2039,
      Some 0x0152, None,        Some 0x017D, None,        None,        Some 0x2018,
      Some 0x2019, Some 0x201C, Some 0x201D, Some 0x2022, Some 0x2013, Some 0x2014,
      Some 0x02DC, Some 0x2122, Some 0x0161, Some 0x203A, Some 0x0153, None,
      Some 0x017E, Some 0x0178]"

definition cp1252_char :: "nat \<Rightarrow> nat option" where
  "cp1252_char b =
     (if b < 0x80 \<or> 0xA0 \<le> b then Some b else cp1252_table ! (b - 0x80))"

fun cp1252 :: "nat list \<Rightarrow> str option" where
  "cp1252 [] = Some []"
| "cp1252 (b # bs) =
     (case cp1252_char b of
        None \<Rightarrow> None
      | Some c \<Rightarrow> map_option ((#) c) (cp1252 bs))"

definition decode :: "encoding \<Rightarrow> byte list \<Rightarrow> str option" where
  "decode enc bs = (case enc of UTF8 \<Rightarrow> utf8 (map unat bs) | CP1252 \<Rightarrow> cp1252 (map unat bs))"

text \<open>
  Text mode with the default \<open>newline=None\<close>: \<open>'\r\n'\<close> and \<open>'\r'\<close> are read as
  \<open>'\n'\<close>, and \<open>readlines\<close> returns the lines with their \<open>'\n'\<close>, the last one
  without it when the file does not end in a newline.
\<close>

fun universal_newlines :: "str \<Rightarrow> str" where
  "universal_newlines [] = []"
| "universal_newlines [c] = [if c = 13 then 10 else c]"
| "universal_newlines (c # d # ds) =
     (if c = 13 \<and> d = 10 then 10 # universal_newlines ds
      else if c = 13 then 10 # universal_newlines (d # ds)
      else c # universal_newlines (d # ds))"

fun split_lines :: "str \<Rightarrow> str \<Rightarrow> str list" where
  "split_lines acc [] = (if acc = [] then [] else [acc])"
| "split_lines acc (c # cs) =
     (if c = 10 then (acc @ [c]) # split_lines [] cs else split_lines (acc @ [c]) cs)"

record file_object =
  fo_handle :: nat
  fo_bytes :: "byte list"
  fo_encoding :: encoding

text \<open>
  \<open>open(filepath, encoding=encoding)\<close>: FileNotFoundError when there is no such file;
  otherwise a new open file object. Nothing is decoded yet.
\<close>

definition open_file ::
  "(str \<rightharpoonup> byte list) \<Rightarrow> str \<Rightarrow> encoding \<Rightarrow> world \<Rightarrow> exception + file_object \<times> world" where
  "open_file fs filepath enc w =
     (case fs filepath of
        None \<Rightarrow> Inl FileNotFoundError
      | Some bs \<Rightarrow>
          Inr (\<lparr>fo_handle = length (handles w), fo_bytes = bs, fo_encoding = enc\<rparr>,
               w\<lparr>handles := handles w @ [True]\<rparr>))"

definition readlines :: "file_object \<Rightarrow> exception + str list" where
  "readlines f =
     (case decode (fo_encoding f) (fo_bytes f) of
        None \<Rightarrow> Inl UnicodeDecodeError
      | Some s \<Rightarrow> Inr (split_lines [] (universal_newlines s)))"

definition close :: "file_object \<Rightarrow> world \<Rightarrow> world" where
  "close f w = w\<lparr>handles := (handles w)[fo_handle f := False]\<rparr>"

section \<open>Orchestrator\<close>

text \<open>
  The local variables of \<open>main\<close> that the \<open>try\<close> statement assigns; \<open>None\<close> is an
  unbound name, whose use raises UnboundLocalError.
\<close>

record locals =
  input_doc :: "file_object option"
  lines :: "str list option"

text \<open>
  Each part of the \<open>try\<close> statement returns the exception it raised, if any, the local
  variables and the world. The suite under \<open>try\<close>:
\<close>

definition try_suite ::
  "(str \<rightharpoonup> byte list) \<Rightarrow> str \<Rightarrow> locals \<Rightarrow> world \<Rightarrow> exception option \<times> locals \<times> world" where
  "try_suite fs filepath l w =
     (case open_file fs filepath UTF8 w of
        Inl e \<Rightarrow> (Some e, l, w)
      | Inr (f, w1) \<Rightarrow>
          (case readlines f of
             Inl e \<Rightarrow> (Some e, l\<lparr>input_doc := Some f\<rparr>, w1)
           | Inr ls \<Rightarrow> (None, l\<lparr>input_doc := Some f, lines := Some ls\<rparr>, w1)))"

text \<open>The first \<open>except UnicodeDecodeError\<close> clause: the name \<open>input_doc\<close> is rebound.\<close>

definition except_first ::
  "(str \<rightharpoonup> byte list) \<Rightarrow> str \<Rightarrow> str \<Rightarrow> locals \<Rightarrow> world \<Rightarrow> exception option \<times> locals \<times> world" where
  "except_first fs filepath filename l w =
     (case open_file fs filepath CP1252 w of
        Inl e \<Rightarrow> (Some e, l, w)
      | Inr (f, w1) \<Rightarrow>
          (case readlines f of
             Inl e \<Rightarrow> (Some e, l\<lparr>input_doc := Some f\<rparr>, w1)
           | Inr ls \<Rightarrow> (None, l\<lparr>input_doc := Some f, lines := Some ls\<rparr>, w1)))"

text \<open>The second \<open>except UnicodeDecodeError\<close> clause: the diagnostic and \<open>sys.exit(1)\<close>.\<close>

definition except_second ::
  "(str \<rightharpoonup> byte list) \<Rightarrow> str \<Rightarrow> str \<Rightarrow> locals \<Rightarrow> world \<Rightarrow> exception option \<times> locals \<times> world" where
  "except_second fs filepath filename l w =
     (Some (SystemExit 1), l, print_stderr (ustr ''Could not convert file: '' @ filename) w)"

text \<open>
  The \<open>finally\<close> clause: close the file object bound to \<open>input_doc\<close>, then segment
  \<open>lines\<close>.
\<close>

definition finally_suite ::
  "locals \<Rightarrow> world \<Rightarrow> (exception + Document list) \<times> world" where
  "finally_suite l w =
     (case input_doc l of
        None \<Rightarrow> (Inl UnboundLocalError, w)
      | Some f \<Rightarrow>
          (let w1 = close f w
           in case lines l of
                None \<Rightarrow> (Inl UnboundLocalError, w1)
              | Some ls \<Rightarrow> (create_document_list ls, w1)))"

text \<open>
  The \<open>try\<close> statement. An exception of the \<open>try\<close> suite goes to the first
  \<open>except\<close> clause whose class matches it, in the order written; an exception raised
  in a clause is not offered to the other clauses. The \<open>finally\<close> clause runs in every
  case; an exception it raises replaces a pending one, otherwise the pending one is raised
  again after it.
\<close>

definition try_statement ::
  "(str \<rightharpoonup> byte list) \<Rightarrow> str \<Rightarrow> str \<Rightarrow> world \<Rightarrow> (exception + Document list) \<times> world" where
  "try_statement fs filepath filename w =
     (let (raised, l, w1) = try_suite fs filepath \<lparr>input_doc = None, lines = None\<rparr> w;
          (pending, l2, w2) =
            (case raised of
               None \<Rightarrow> (None, l, w1)
             | Some e \<Rightarrow>
                 (case find (\<lambda>clause. fst clause = e)
                         [(UnicodeDecodeError, except_first),
                          (UnicodeDecodeError, except_second)] of
                    None \<Rightarrow> (Some e, l, w1)
                  | Some clause \<Rightarrow> snd clause fs filepath filename l w1));
          (result, w3) = finally_suite l2 w2
      in case result of
           Inl e \<Rightarrow> (Inl e, w3)
         | Inr documents \<Rightarrow>
             (case pending of
                Some e \<Rightarrow> (Inl e, w3)
              | None \<Rightarrow> (Inr documents, w3)))"

text \<open>The loop \<open>for doc in documents\<close>.\<close>

fun emit_documents ::
  "pipeline \<Rightarrow> str \<Rightarrow> Document list \<Rightarrow> world \<Rightarrow> exception option \<times> world" where
  "emit_documents NLP filename [] w = (None, w)"
| "emit_documents NLP filename (d # rest) w =
     (case print_header filename w of
        Inl e \<Rightarrow> (Some e, w)
      | Inr w1 \<Rightarrow>
          (let w2 = print_cwb NLP (header d) (ustr ''<h1>'') w1;
               w3 = print_cwb NLP (body d) (ustr ''<s>'') w2;
               w4 = print_footer w3
           in emit_documents NLP filename rest w4))"

text \<open>
  The lines the loop writes for one Document when \<open>print_header\<close> does not raise:
  the tag of \<open>print_header\<close>, the annotated headline, the annotated body and the footer.
\<close>

definition document_lines :: "pipeline \<Rightarrow> str \<Rightarrow> Document \<Rightarrow> str list" where
  \<open>document_lines NLP filename d =
     [ustr ''<text id="'' @
      replace (of_char CHR ''-'') (ustr ''_'') (take (length filename - 4) filename) @
      ustr ''" date="'' @ take 10 filename @
      ustr ''" year="'' @ split_str (of_char CHR ''_'') (take 10 filename) ! 0 @
      ustr ''" month="'' @ split_str (of_char CHR ''_'') (take 10 filename) ! 1 @
      ustr ''" day="'' @ split_str (of_char CHR ''_'') (take 10 filename) ! 2 @
      ustr ''">''] @
     cwb_lines NLP (header d) (ustr ''<h1>'') @
     cwb_lines NLP (body d) (ustr ''<s>'') @
     [ustr ''</text>'']\<close>

text \<open>
  \<open>main\<close>, given the pipeline, the file system and the value of \<open>--input\<close>. The result
  is the uncaught exception, if any, and the world it leaves.
\<close>

definition main ::
  "pipeline \<Rightarrow> (str \<rightharpoonup> byte list) \<Rightarrow> str \<Rightarrow> world \<Rightarrow> exception option \<times> world" where
  "main NLP fs input w =
     (let filepath = input;
          filename = last (split_str (of_char CHR ''/'') input);
          (result, w1) = try_statement fs filepath filename w
      in case result of
           Inl e \<Rightarrow> (Some e, w1)
         | Inr documents \<Rightarrow> emit_documents NLP filename documents w1)"

text \<open>
  The exit status of the interpreter: 0 when \<open>main\<close> returns, the argument of
  \<open>sys.exit\<close> for SystemExit, 1 for any other uncaught exception.
\<close>

definition exit_code :: "exception option \<Rightarrow> nat" where
  "exit_code r = (case r of None \<Rightarrow> 0 | Some (SystemExit n) \<Rightarrow> n | Some _ \<Rightarrow> 1)"

text \<open>The content of a file given as text in ASCII.\<close>

definition ascii_bytes :: "string \<Rightarrow> byte list" where
  "ascii_bytes s = map of_char s"

section \<open>A test double for the pipeline\<close>

text \<open>
  A small deterministic pipeline to run the program on concrete inputs. A sentence ends
  after each full stop, and leading spaces of the next one are skipped. Tokens follow the
  whitespace rule of spaCy's tokenizer: the text is cut at single spaces, and within a piece
  every maximal run of whitespace other than the space (a tab, for instance) is a token of
  its own, tagged \<open>SPACE\<close>; every other token is tagged \<open>X\<close>. The lemma of a token is
  its text.
\<close>

fun toy_sentences :: "str \<Rightarrow> str \<Rightarrow> str list" where
  "toy_sentences acc [] = (if acc = [] then [] else [acc])"
| "toy_sentences acc (c # cs) =
     (if c = of_char CHR ''.'' then (acc @ [c]) # toy_sentences [] cs
      else if acc = [] \<and> c = of_char CHR '' '' then toy_sentences [] cs
      else toy_sentences (acc @ [c]) cs)"

fun toy_runs :: "str \<Rightarrow> str \<Rightarrow> str list" where
  "toy_runs acc [] = (if acc = [] then [] else [acc])"
| "toy_runs acc (c # cs) =
     (if acc = [] \<or> isspace (last acc) = isspace c then toy_runs (acc @ [c]) cs
      else acc # toy_runs [c] cs)"

definition toy_tokens :: "str \<Rightarrow> token list" where
  "toy_tokens s =
     map (\<lambda>w. \<lparr>tok_text = w,
               tok_pos = (if isspace (hd w) then ustr ''SPACE'' else ustr ''X''),
               tok_lemma = w\<rparr>)
       (concat (map (toy_runs []) (split_str (of_char CHR '' '') s)))"

definition toy_NLP :: pipeline where
  "toy_NLP s =
     \<lparr>sents = map (\<lambda>t. \<lparr>span_text = t, span_tokens = toy_tokens t\<rparr>) (toy_sentences [] s),
      tokens = toy_tokens s\<rparr>"

section \<open>Properties\<close>

lemma ustr_simps [simp]:
  "ustr [] = []"
  "ustr (c # cs) = of_char c # ustr cs"
  by (simp_all add: ustr_def)

subsection \<open>Strings and printing\<close>

lemma print_simps [simp]:
  "stdout (print s w) = stdout w @ [s]"
  "stderr (print s w) = stderr w"
  "handles (print s w) = handles w"
  "nlp_calls (print s w) = nlp_calls w"
  by (simp_all add: print_def)

lemma split_str_not_Nil [simp]: "split_str sep s \<noteq> []"
  by (induction s) (auto split: list.splits)

lemma split_str_no_sep: "sep \<notin> set s \<Longrightarrow> split_str sep s = [s]"
  by (induction s) auto

lemma split_str_append:
  "sep \<notin> set s \<Longrightarrow> split_str sep (s @ sep # t) = s # split_str sep t"
  by (induction s) auto

lemma join_split_str: "join [sep] (split_str sep s) = s"
proof (induction s)
  case Nil
  show ?case by simp
next
  case (Cons c cs)
  show ?case
  proof (cases "c = sep")
    case True
    obtain w ws where "split_str sep cs = w # ws"
      by (cases "split_str sep cs") auto
    with Cons True show ?thesis by simp
  next
    case False
    obtain w ws where ws: "split_str sep cs = w # ws"
      by (cases "split_str sep cs") auto
    with Cons have "join [sep] (w # ws) = cs" by simp
    then have "join [sep] ((c # w) # ws) = c # cs"
      by (cases ws) auto
    with False ws show ?thesis by simp
  qed
qed

lemma length_split_str: "length (split_str sep s) = Suc (count_list s sep)"
  by (induction s) (auto split: list.splits)

lemma replace_no_old: "old \<notin> set new \<Longrightarrow> old \<notin> set (replace old new s)"
  by (induction s) (auto simp: replace_def)

subsection \<open>Annotation emitter\<close>

text \<open>What the two loops of \<open>print_cwb\<close> do to the world.\<close>

lemma fold_print_eq:
  "fold (\<lambda>t. print (f t)) ts w = w\<lparr>stdout := stdout w @ map f ts\<rparr>"
  by (induction ts arbitrary: w) (simp_all add: print_def)

lemma print_sentence_eq:
  "print_sentence NLP tag s w =
     w\<lparr>stdout := stdout w @ sentence_lines NLP tag s,
       nlp_calls := nlp_calls w @ [span_text s]\<rparr>"
  by (simp add: print_sentence_def call_NLP_def sentence_lines_def fold_print_eq print_def)

lemma fold_print_sentence_eq:
  "fold (print_sentence NLP tag) ss w =
     w\<lparr>stdout := stdout w @ concat (map (sentence_lines NLP tag) ss),
       nlp_calls := nlp_calls w @ map span_text ss\<rparr>"
  by (induction ss arbitrary: w) (simp_all add: print_sentence_eq)

lemma print_cwb_eq:
  "print_cwb NLP document tag w =
     w\<lparr>stdout := stdout w @ cwb_lines NLP document tag,
       nlp_calls := nlp_calls w @ document # map span_text (sents (NLP document))\<rparr>"
  by (simp add: print_cwb_def call_NLP_def cwb_lines_def fold_print_sentence_eq)

lemma print_cwb_fields:
  "stdout (print_cwb NLP document tag w) = stdout w @ cwb_lines NLP document tag"
  "stderr (print_cwb NLP document tag w) = stderr w"
  "handles (print_cwb NLP document tag w) = handles w"
  "nlp_calls (print_cwb NLP document tag w) =
     nlp_calls w @ document # map span_text (sents (NLP document))"
  by (simp_all add: print_cwb_eq)

lemma split_str_token_line:
  assumes "9 \<notin> set (tok_text t)" and "9 \<notin> set (tok_pos t)" and "9 \<notin> set (tok_lemma t)"
  shows "split_str 9 (token_line t) = [tok_text t, tok_pos t, tok_lemma t]"
  using assms by (simp add: token_line_def split_str_append split_str_no_sep)

text \<open>
  C5, as amended. For every pipeline, text and tag, \<open>print_cwb\<close> writes to standard output,
  for each sentence of the text in order: the tag, then for each token of the sentence one
  line made of the surface form, a tab, the part-of-speech tag, a tab and the lemma, then the
  tag with every \<open><\<close> replaced by \<open></\<close> (so \<open><h1>\<close> gives \<open></h1>\<close> and \<open><s>\<close> gives
  \<open></s>\<close>). It writes nothing else, leaves the error stream and the file objects alone, and
  returns no value (its result is the world alone). A token line splits at tabs into exactly
  the three fields whenever none of the three contains a tab.
\<close>

theorem print_cwb_output:
  "stdout (print_cwb NLP document tag w) =
     stdout w @
     concat (map (\<lambda>s. [tag] @
                      map (\<lambda>t. tok_text t @ [9] @ tok_pos t @ [9] @ tok_lemma t)
                        (tokens (NLP (span_text s))) @
                      [replace (of_char CHR ''<'') (ustr ''</'') tag])
               (sents (NLP document))) \<and>
   stderr (print_cwb NLP document tag w) = stderr w \<and>
   handles (print_cwb NLP document tag w) = handles w \<and>
   replace (of_char CHR ''<'') (ustr ''</'') (ustr ''<h1>'') = ustr ''</h1>'' \<and>
   replace (of_char CHR ''<'') (ustr ''</'') (ustr ''<s>'') = ustr ''</s>'' \<and>
   (9 \<notin> set (tok_text (t::token)) \<and> 9 \<notin> set (tok_pos t) \<and> 9 \<notin> set (tok_lemma t) \<longrightarrow>
      split_str 9 (tok_text t @ [9] @ tok_pos t @ [9] @ tok_lemma t) =
        [tok_text t, tok_pos t, tok_lemma t])"
proof -
  have "cwb_lines NLP document tag =
     concat (map (\<lambda>s. [tag] @
                      map (\<lambda>t. tok_text t @ [9] @ tok_pos t @ [9] @ tok_lemma t)
                        (tokens (NLP (span_text s))) @
                      [replace (of_char CHR ''<'') (ustr ''</'') tag])
               (sents (NLP document)))"
    unfolding cwb_lines_def sentence_lines_def [abs_def] token_line_def [abs_def] ..
  moreover have "replace (of_char CHR ''<'') (ustr ''</'') (ustr ''<h1>'') = ustr ''</h1>''"
    by (simp add: replace_def)
  moreover have "replace (of_char CHR ''<'') (ustr ''</'') (ustr ''<s>'') = ustr ''</s>''"
    by (simp add: replace_def)
  ultimately show ?thesis
    using split_str_token_line [of t]
    by (simp only: print_cwb_fields token_line_def) simp
qed

text \<open>The theorem at a text of one sentence and two tokens, with the test double.\<close>

theorem print_cwb_output_witness:
  "stdout (print_cwb toy_NLP (ustr ''a b.'') (ustr ''<s>'') world0) =
     [ustr ''<s>'', ustr ''a'' @ [9] @ ustr ''X'' @ [9] @ ustr ''a'',
      ustr ''b.'' @ [9] @ ustr ''X'' @ [9] @ ustr ''b.'', ustr ''</s>''] \<and>
   split_str 9 (ustr ''a'' @ [9] @ ustr ''X'' @ [9] @ ustr ''a'') =
     [ustr ''a'', ustr ''X'', ustr ''a'']"
  using print_cwb_output [of toy_NLP "ustr ''a b.''" "ustr ''<s>''" world0
      "\<lparr>tok_text = ustr ''a'', tok_pos = ustr ''X'', tok_lemma = ustr ''a''\<rparr>"]
  by (simp add: toy_NLP_def toy_tokens_def world0_def replace_def isspace_def)

text \<open>
  The claim as written (every token line has exactly three tab-separated fields) fails
  when the text holds a tab: the line \<open>a<TAB>b\<close> makes the tab a token of its own, as
  spaCy's tokenizer does, and the line printed for it has five fields.
\<close>

theorem print_cwb_tab_in_token:
  "stdout (print_cwb toy_NLP (ustr ''a'' @ [9] @ ustr ''b'') (ustr ''<s>'') world0) ! 2 =
     [9] @ [9] @ ustr ''SPACE'' @ [9] @ [9] \<and>
   split_str 9
     (stdout (print_cwb toy_NLP (ustr ''a'' @ [9] @ ustr ''b'') (ustr ''<s>'') world0) ! 2) =
     [[], [], ustr ''SPACE'', [], []]"
  by (simp add: print_cwb_fields cwb_lines_def sentence_lines_def token_line_def
      toy_NLP_def toy_tokens_def world0_def isspace_def)

text \<open>
  C6. For every text, \<open>print_cwb\<close> calls the pipeline once on the whole text and then once
  on the text of each sentence, in order; the token lines it prints for a sentence are the
  tokens of that second call. The tokens the first pass attached to the sentence are never
  read: replacing them by anything leaves the result unchanged.
\<close>

theorem print_cwb_second_pass:
  "nlp_calls (print_cwb NLP document tag w) =
     nlp_calls w @ document # map span_text (sents (NLP document)) \<and>
   stdout (print_cwb NLP document tag w) =
     stdout w @
     concat (map (\<lambda>s. [tag] @ map token_line (tokens (NLP (span_text s))) @
                      [replace (of_char CHR ''<'') (ustr ''</'') tag])
               (sents (NLP document))) \<and>
   print_cwb (\<lambda>s. (NLP s)\<lparr>sents := map (\<lambda>sp. sp\<lparr>span_tokens := ts sp\<rparr>) (sents (NLP s))\<rparr>)
     document tag w = print_cwb NLP document tag w"
  by (simp add: print_cwb_eq cwb_lines_def sentence_lines_def [abs_def] comp_def)

subsection \<open>Filename metadata\<close>

text \<open>What \<open>print_header\<close> does on any filename.\<close>

lemma print_header_eq:
  \<open>print_header filename w =
     (if count_list (take 10 filename) (of_char CHR ''_'') < 2 then Inl IndexError
      else Inr (print
        (ustr ''<text id="'' @
         replace (of_char CHR ''-'') (ustr ''_'') (take (length filename - 4) filename) @
         ustr ''" date="'' @ take 10 filename @
         ustr ''" year="'' @ split_str (of_char CHR ''_'') (take 10 filename) ! 0 @
         ustr ''" month="'' @ split_str (of_char CHR ''_'') (take 10 filename) ! 1 @
         ustr ''" day="'' @ split_str (of_char CHR ''_'') (take 10 filename) ! 2 @
         ustr ''">'') w))\<close>
proof -
  have j: "join [95] (split_str 95 (take 10 filename)) = take 10 filename"
    by (rule join_split_str)
  have l: "length (split_str 95 (take 10 filename)) = Suc (count_list (take 10 filename) 95)"
    by (rule length_split_str)
  show ?thesis
    by (simp add: print_header_def index_def Let_def j l)
qed

text \<open>
  C4. For every filename of the form \<open>YYYY_MM_DD_<slug>.txt\<close> (a year of four characters,
  a month and a day of two, none of them containing \<open>_\<close>, as is the case for digits),
  the first ten characters split on \<open>_\<close> into year, month and day, and \<open>print_header\<close>
  prints exactly the tag whose \<open>id\<close> is the filename without its last four characters and
  with every \<open>-\<close> replaced by \<open>_\<close>, whose \<open>date\<close> is year, month and day joined by
  \<open>_\<close>, and whose \<open>year\<close>, \<open>month\<close> and \<open>day\<close> are these three parts. The \<open>id\<close>
  contains no \<open>-\<close>.
\<close>

theorem print_header_well_formed:
  assumes \<open>length y = 4\<close> and \<open>length m = 2\<close> and \<open>length d = 2\<close>
    and \<open>of_char CHR ''_'' \<notin> set y\<close> and \<open>of_char CHR ''_'' \<notin> set m\<close>
    and \<open>of_char CHR ''_'' \<notin> set d\<close>
    and \<open>filename = y @ ustr ''_'' @ m @ ustr ''_'' @ d @ ustr ''_'' @ slug @ ustr ''.txt''\<close>
  shows \<open>split_str (of_char CHR ''_'') (take 10 filename) = [y, m, d] \<and>
         print_header filename w =
           Inr (print
             (ustr ''<text id="'' @
              replace (of_char CHR ''-'') (ustr ''_'')
                (y @ ustr ''_'' @ m @ ustr ''_'' @ d @ ustr ''_'' @ slug) @
              ustr ''" date="'' @ y @ ustr ''_'' @ m @ ustr ''_'' @ d @
              ustr ''" year="'' @ y @
              ustr ''" month="'' @ m @
              ustr ''" day="'' @ d @ ustr ''">'') w) \<and>
         of_char CHR ''-'' \<notin> set (replace (of_char CHR ''-'') (ustr ''_'')
                (y @ ustr ''_'' @ m @ ustr ''_'' @ d @ ustr ''_'' @ slug))\<close>
proof -
  have t10: "take 10 filename = y @ 95 # m @ 95 # d"
    using assms by simp
  have sp: "split_str 95 (y @ 95 # m @ 95 # d) = [y, m, d]"
    using assms(4-6) by (simp add: split_str_append split_str_no_sep)
  have cnt: "count_list (y @ 95 # m @ 95 # d) 95 = 2"
    using length_split_str [of 95 "y @ 95 # m @ 95 # d"] by (simp add: sp)
  have "filename = (y @ 95 # m @ 95 # d @ 95 # slug) @ [46, 116, 120, 116]"
    using assms(7) by simp
  then have stem: "take (length filename - 4) filename = y @ 95 # m @ 95 # d @ 95 # slug"
    by (simp del: append_assoc append.simps)
  have nd: "(45::nat) \<notin> set (replace 45 [95] (y @ 95 # m @ 95 # d @ 95 # slug))"
    by (rule replace_no_old) simp
  have "print_header filename w =
     Inr (print
       (ustr ''<text id=\"'' @ replace 45 [95] (y @ 95 # m @ 95 # d @ 95 # slug) @
        ustr ''\" date=\"'' @ (y @ 95 # m @ 95 # d) @
        ustr ''\" year=\"'' @ y @ ustr ''\" month=\"'' @ m @ ustr ''\" day=\"'' @ d @
        ustr ''\">'') w)"
    unfolding print_header_eq t10 stem by (simp add: cnt sp)
  with sp nd show ?thesis by (simp add: t10)
qed

text \<open>The theorem at the filename of the docstring.\<close>

theorem print_header_well_formed_witness:
  \<open>print_header (ustr ''2017_11_03_example-text.txt'') world0 =
     Inr (print
       (ustr ''<text id="2017_11_03_example_text" date="2017_11_03" year="2017" month="11" day="03">'')
       world0)\<close>
  using print_header_well_formed [of "ustr ''2017''" "ustr ''11''" "ustr ''03''"
      "ustr ''2017_11_03_example-text.txt''" "ustr ''example-text''" world0]
  by (simp add: replace_def)

text \<open>
  C7, as amended. \<open>print_header\<close> validates nothing. On a filename whose first ten
  characters hold at least two \<open>_\<close> it completes and prints a tag whose attributes are
  whatever the fixed-offset slicing and the split yield; on a filename whose first ten
  characters hold fewer than two \<open>_\<close> it raises IndexError and prints nothing.
\<close>

theorem print_header_any_filename:
  \<open>print_header filename w =
     (if count_list (take 10 filename) (of_char CHR ''_'') < 2 then Inl IndexError
      else Inr (print
        (ustr ''<text id="'' @
         replace (of_char CHR ''-'') (ustr ''_'') (take (length filename - 4) filename) @
         ustr ''" date="'' @ take 10 filename @
         ustr ''" year="'' @ split_str (of_char CHR ''_'') (take 10 filename) ! 0 @
         ustr ''" month="'' @ split_str (of_char CHR ''_'') (take 10 filename) ! 1 @
         ustr ''" day="'' @ split_str (of_char CHR ''_'') (take 10 filename) ! 2 @
         ustr ''">'') w))\<close>
  by (rule print_header_eq)

text \<open>The theorem at a filename with no date: the attributes are mis-parsed silently.\<close>

theorem print_header_any_filename_witness:
  \<open>print_header (ustr ''a_b_c.txt'') world0 =
     Inr (print (ustr ''<text id="a_b_c" date="a_b_c.txt" year="a" month="b" day="c.txt">'')
            world0)\<close>
  using print_header_any_filename [of "ustr ''a_b_c.txt''" world0]
  by (simp add: replace_def)

text \<open>
  The claim as written (no error on any filename) fails on \<open>abc.txt\<close>: the split has
  one part, and \<open>date_list[1]\<close> raises IndexError.
\<close>

theorem print_header_few_underscores_raises:
  "print_header (ustr ''abc.txt'') world0 = Inl IndexError"
  by (simp add: print_header_def index_def)

subsection \<open>Segmenter\<close>

text \<open>The loop never raises, and returns the Documents listed by \<open>segments\<close>.\<close>

lemma create_document_snoc:
  "create_document (d @ [x]) =
     Inr \<lparr>header = hd (d @ [x]), body = join (ustr '' '') (tl (d @ [x]))\<rparr>"
  by (cases d) (simp_all add: create_document_def)

lemma loop_segments:
  "lines_of_file \<noteq> [] \<Longrightarrow>
     create_document_list_loop lines_of_file rest document documents =
       Inr (documents @ segments lines_of_file rest document)"
proof (induction rest arbitrary: document documents)
  case Nil
  show ?case by simp
next
  case (Cons line rest)
  show ?case
  proof (cases "boundary lines_of_file line")
    case True
    then show ?thesis
      using Cons.prems Cons.IH [of "[]" "documents @ [\<lparr>header = hd (document @ [rstrip line]),
            body = join (ustr '' '') (tl (document @ [rstrip line]))\<rparr>]"]
      by (auto simp add: boundary_def index_last_def create_document_snoc
          simp del: ustr_simps)
  next
    case False
    then show ?thesis
      using Cons.prems Cons.IH [of "document @ [rstrip line]" documents]
      by (auto simp add: boundary_def index_last_def simp del: ustr_simps)
  qed
qed

lemma create_document_list_segments:
  "create_document_list lines_of_file = Inr (segments lines_of_file lines_of_file [])"
  by (cases "lines_of_file = []") (simp_all add: create_document_list_def loop_segments)

lemma segments_no_boundary:
  "list_all (\<lambda>l. \<not> boundary L l) blk \<Longrightarrow>
     segments L (blk @ rest) document = segments L rest (document @ map rstrip blk)"
  by (induction blk arbitrary: document) simp_all

lemma length_segments:
  "length (segments L xs document) = length (filter (boundary L) xs)"
  by (induction xs arbitrary: document) simp_all

lemma segments_after_boundary:
  "pre \<noteq> [] \<Longrightarrow> boundary L (last pre) \<Longrightarrow>
     segments L (pre @ rest) document = segments L pre document @ segments L rest []"
proof (induction pre arbitrary: document)
  case Nil
  then show ?case by simp
next
  case (Cons x pre)
  show ?case
  proof (cases "pre = []")
    case True
    with Cons.prems show ?thesis by simp
  next
    case False
    with Cons.prems have "boundary L (last pre)" by simp
    with False Cons.IH show ?thesis by simp
  qed
qed

text \<open>
  The number of Documents is the number of lines that pass the test of the loop. When no line
  before the last one equals the last line (unless it is blank), that is the number of blank
  lines before the last line, plus one.
\<close>

lemma create_document_list_length:
  "\<exists>docs. create_document_list lines_of_file = Inr docs \<and>
          length docs = length (filter (boundary lines_of_file) lines_of_file)"
  by (simp add: create_document_list_segments length_segments)

lemma boundaries_when_last_line_unique:
  assumes "lines_of_file \<noteq> []"
    and "list_all (\<lambda>l. l = last lines_of_file \<longrightarrow> l = ustr ''\<newline>'') (butlast lines_of_file)"
  shows "length (filter (boundary lines_of_file) lines_of_file) =
           count_list (butlast lines_of_file) (ustr ''\<newline>'') + 1"
proof -
  have "filter (boundary lines_of_file) (butlast lines_of_file) =
          filter (\<lambda>l. l = ustr ''\<newline>'') (butlast lines_of_file)"
    using assms(2) by (intro filter_cong) (auto simp add: boundary_def list_all_iff)
  moreover have "filter (boundary lines_of_file) lines_of_file =
      filter (boundary lines_of_file) (butlast lines_of_file) @ [last lines_of_file]"
    using assms(1) append_butlast_last_id [of lines_of_file, symmetric]
    by (metis boundary_def filter.simps(1,2) filter_append)
  moreover have "length (filter (\<lambda>l. l = ustr ''\<newline>'') (butlast lines_of_file)) =
      count_list (butlast lines_of_file) (ustr ''\<newline>'')"
    by (simp add: count_list_eq_length_filter) (metis (mono_tags, lifting) filter_cong)
  ultimately show ?thesis by simp
qed

text \<open>
  C1. The claim: a document boundary is triggered at a line precisely when the line is the
  blank line or occupies the last position of the file, so that there is one Document per
  blank-line-delimited block. The code compares each line with the last line by value, so a
  line that merely equals the last line also triggers a boundary: the file whose three lines
  are \<open>a\<close>, \<open>b\<close>, \<open>a\<close> has no blank line and is one block, and the segmenter returns two
  Documents, the first flushed after line 1.
\<close>

theorem create_document_list_equal_to_last_line:
  "create_document_list [ustr ''a\<newline>'', ustr ''b\<newline>'', ustr ''a\<newline>''] =
     Inr [\<lparr>header = ustr ''a'', body = []\<rparr>, \<lparr>header = ustr ''b'', body = ustr ''a''\<rparr>]"
  by (simp add: create_document_list_def create_document_def index_last_def rstrip_def
      isspace_def)

text \<open>Right-trimming and joining.\<close>

lemma isspace_newline [simp]: "isspace 10" "isspace 32"
  by (simp_all add: isspace_def)

lemma rstrip_newline [simp]: "rstrip [10] = []"
  by (simp add: rstrip_def)

lemma rstrip_last: "rstrip s \<noteq> [] \<Longrightarrow> \<not> isspace (last (rstrip s))"
proof -
  assume a: "rstrip s \<noteq> []"
  then have ne: "dropWhile isspace (rev s) \<noteq> []" by (simp add: rstrip_def)
  then have "\<not> isspace (hd (dropWhile isspace (rev s)))" by (rule hd_dropWhile)
  with ne show ?thesis by (simp add: rstrip_def last_rev)
qed

lemma join_snoc_empty: "xs \<noteq> [] \<Longrightarrow> join sep (xs @ [[]]) = join sep xs @ sep"
  by (induction sep xs rule: join.induct) simp_all

lemma join_snoc_last:
  "x \<noteq> [] \<Longrightarrow> join sep (xs @ [x]) \<noteq> [] \<and> last (join sep (xs @ [x])) = last x"
  by (induction sep xs rule: join.induct) simp_all

lemma segments_block:
  assumes pre: "pre = [] \<or> boundary L (last pre)"
    and blk: "list_all (\<lambda>l. \<not> boundary L l) blk"
    and t: "boundary L t"
  shows "segments L (pre @ blk @ [t] @ post) [] =
           segments L pre [] @
           \<lparr>header = rstrip (hd (blk @ [t])),
            body = join (ustr '' '') (map rstrip (tl (blk @ [t])))\<rparr> #
           segments L post []"
proof -
  have "segments L (blk @ t # post) [] =
          \<lparr>header = hd (map rstrip blk @ [rstrip t]),
           body = join (ustr '' '') (tl (map rstrip blk @ [rstrip t]))\<rparr> # segments L post []"
    using blk t by (simp add: segments_no_boundary del: ustr_simps)
  moreover have "hd (map rstrip blk @ [rstrip t]) = rstrip (hd (blk @ [t]))"
    by (cases blk) simp_all
  moreover have "tl (map rstrip blk @ [rstrip t]) = map rstrip (tl (blk @ [t]))"
    by (cases blk) simp_all
  ultimately have b: "segments L (blk @ t # post) [] =
          \<lparr>header = rstrip (hd (blk @ [t])),
           body = join (ustr '' '') (map rstrip (tl (blk @ [t])))\<rparr> # segments L post []"
    by simp
  show ?thesis
  proof (cases "pre = []")
    case True
    with b show ?thesis by simp
  next
    case False
    with pre have "boundary L (last pre)" by simp
    with False have "segments L (pre @ blk @ t # post) [] =
        segments L pre [] @ segments L (blk @ t # post) []"
      by (rule segments_after_boundary)
    with b show ?thesis by simp
  qed
qed

text \<open>
  C10, as amended. Take a document of the file: the lines \<open>blk\<close> that trigger no boundary,
  then the line \<open>t\<close> that does, the buffer being empty before \<open>blk\<close>. The line \<open>t\<close> is
  appended, right-trimmed, to the buffer before the flush: the header is the first line of
  \<open>blk @ [t]\<close> trimmed, the body is the other lines, trimmed and joined by single spaces.
  So when \<open>t\<close> is the blank line and \<open>blk\<close> holds a header and at least one more line,
  the body ends with a space. When \<open>t\<close> is not the blank line (a document flushed at the last
  line of the file), the body does not end with a space provided \<open>t\<close> holds a character that
  is not whitespace; when \<open>t\<close> is whitespace only, the body ends with a space as in the
  blank-line case.
\<close>

theorem flushed_document_body:
  assumes "lines_of_file = pre @ blk @ [t] @ post"
    and "pre = [] \<or> boundary lines_of_file (last pre)"
    and "list_all (\<lambda>l. \<not> boundary lines_of_file l) blk"
    and "boundary lines_of_file t"
  shows "\<exists>docs. create_document_list lines_of_file = Inr docs \<and>
           length (filter (boundary lines_of_file) pre) < length docs \<and>
           header (docs ! length (filter (boundary lines_of_file) pre)) =
             rstrip (hd (blk @ [t])) \<and>
           body (docs ! length (filter (boundary lines_of_file) pre)) =
             join (ustr '' '') (map rstrip (tl (blk @ [t]))) \<and>
           (t = ustr ''\<newline>'' \<and> 2 \<le> length blk \<longrightarrow>
              ends_with_space (body (docs ! length (filter (boundary lines_of_file) pre)))) \<and>
           (t \<noteq> ustr ''\<newline>'' \<and> rstrip t \<noteq> [] \<longrightarrow>
              \<not> ends_with_space (body (docs ! length (filter (boundary lines_of_file) pre)))) \<and>
           (t \<noteq> ustr ''\<newline>'' \<and> rstrip t = [] \<and> 2 \<le> length blk \<longrightarrow>
              ends_with_space (body (docs ! length (filter (boundary lines_of_file) pre))))"
proof -
  let ?n = "length (filter (boundary lines_of_file) pre)"
  let ?b = "join (ustr '' '') (map rstrip (tl (blk @ [t])))"
  let ?docs = "segments lines_of_file lines_of_file []"
  have docs: "?docs = segments lines_of_file pre [] @
           \<lparr>header = rstrip (hd (blk @ [t])), body = ?b\<rparr> # segments lines_of_file post []"
    using segments_block [OF assms(2-4), of post] assms(1) by simp
  have n: "length (segments lines_of_file pre []) = ?n"
    by (rule length_segments)
  have nth: "?docs ! ?n = \<lparr>header = rstrip (hd (blk @ [t])), body = ?b\<rparr>"
    unfolding docs using n by (simp add: nth_append del: ustr_simps)
  have len: "?n < length ?docs"
    unfolding docs using n by simp
  have tl: "blk \<noteq> [] \<Longrightarrow> map rstrip (tl (blk @ [t])) = map rstrip (tl blk) @ [rstrip t]"
    by (cases blk) simp_all
  have e1: "ends_with_space ?b" if "rstrip t = []" and "2 \<le> length blk"
  proof -
    from that(2) have "blk \<noteq> []" and "map rstrip (tl blk) \<noteq> []"
      by (cases blk; cases "tl blk"; simp)+
    then have "?b = join [32] (map rstrip (tl blk)) @ [32]"
      using that(1) by (simp add: tl join_snoc_empty)
    then show ?thesis by (simp add: ends_with_space_def)
  qed
  have e2: "\<not> ends_with_space ?b" if "rstrip t \<noteq> []"
  proof (cases "blk = []")
    case True
    then show ?thesis by (simp add: ends_with_space_def)
  next
    case False
    then have "last ?b = last (rstrip t)"
      using that join_snoc_last [of "rstrip t" "[32]" "map rstrip (tl blk)"] by (simp add: tl)
    moreover have "\<not> isspace (last (rstrip t))"
      using that by (rule rstrip_last)
    ultimately show ?thesis
      by (auto simp add: ends_with_space_def)
  qed
  have "create_document_list lines_of_file = Inr ?docs"
    by (rule create_document_list_segments)
  moreover note len
  moreover have "header (?docs ! ?n) = rstrip (hd (blk @ [t]))" by (simp only: nth) simp
  moreover have "body (?docs ! ?n) = ?b" by (simp only: nth) simp
  moreover have "t = ustr ''\<newline>'' \<and> 2 \<le> length blk \<longrightarrow> ends_with_space (body (?docs ! ?n))"
    using e1 by (simp only: nth) auto
  moreover have "t \<noteq> ustr ''\<newline>'' \<and> rstrip t \<noteq> [] \<longrightarrow> \<not> ends_with_space (body (?docs ! ?n))"
    using e2 by (simp only: nth) simp
  moreover have "t \<noteq> ustr ''\<newline>'' \<and> rstrip t = [] \<and> 2 \<le> length blk \<longrightarrow>
      ends_with_space (body (?docs ! ?n))"
    using e1 by (simp only: nth) simp
  ultimately show ?thesis by blast
qed

text \<open>
  The theorem at a file of two documents, the first flushed at a blank line, the second at
  the last line.
\<close>

theorem flushed_document_body_witness:
  "\<exists>docs. create_document_list
            [ustr ''h1\<newline>'', ustr ''a\<newline>'', ustr ''\<newline>'', ustr ''h2\<newline>'', ustr ''b\<newline>'',
             ustr ''c''] = Inr docs \<and>
          body (docs ! 0) = ustr ''a '' \<and> ends_with_space (body (docs ! 0)) \<and>
          body (docs ! 1) = ustr ''b c'' \<and> \<not> ends_with_space (body (docs ! 1))"
proof -
  let ?L = "[ustr ''h1\<newline>'', ustr ''a\<newline>'', ustr ''\<newline>'', ustr ''h2\<newline>'', ustr ''b\<newline>'',
             ustr ''c'']"
  obtain docs where d: "create_document_list ?L = Inr docs"
    and d0: "body (docs ! 0) = ustr ''a ''" "ends_with_space (body (docs ! 0))"
    using flushed_document_body [of ?L "[]" "[ustr ''h1\<newline>'', ustr ''a\<newline>'']" "ustr ''\<newline>''"
        "[ustr ''h2\<newline>'', ustr ''b\<newline>'', ustr ''c'']"]
    by (auto simp add: boundary_def rstrip_def isspace_def)
  obtain docs' where d': "create_document_list ?L = Inr docs'"
    and d1: "body (docs' ! 1) = ustr ''b c''" "\<not> ends_with_space (body (docs' ! 1))"
    using flushed_document_body [of ?L "[ustr ''h1\<newline>'', ustr ''a\<newline>'', ustr ''\<newline>'']"
        "[ustr ''h2\<newline>'', ustr ''b\<newline>'']" "ustr ''c''" "[]"]
    by (auto simp add: boundary_def rstrip_def isspace_def)
  from d d' have "docs' = docs" by simp
  with d d0 d1 show ?thesis by blast
qed

text \<open>
  The claim as written (a document flushed only at the end of the file has no trailing space)
  fails when the last line is a single space: it is not the blank line \<open>'\n'\<close>, it is
  trimmed to the empty string, and the body is \<open>'a '\<close>.
\<close>

theorem whitespace_last_line_trailing_space:
  "create_document_list [ustr ''h\<newline>'', ustr ''a\<newline>'', ustr '' ''] =
     Inr [\<lparr>header = ustr ''h'', body = ustr ''a ''\<rparr>] \<and>
   ends_with_space (ustr ''a '')"
  by (simp add: create_document_list_def create_document_def index_last_def rstrip_def
      isspace_def ends_with_space_def)

subsection \<open>Orchestrator\<close>

text \<open>The four ways through the \<open>try\<close> statement.\<close>

lemma try_statement_no_file:
  "fs filepath = None \<Longrightarrow>
     try_statement fs filepath filename w = (Inl UnboundLocalError, w)"
  by (simp add: try_statement_def try_suite_def open_file_def finally_suite_def)

lemma try_statement_utf8:
  "fs filepath = Some bs \<Longrightarrow> decode UTF8 bs = Some s \<Longrightarrow>
     try_statement fs filepath filename w =
       (create_document_list (split_lines [] (universal_newlines s)),
        w\<lparr>handles := handles w @ [False]\<rparr>)"
  by (simp add: try_statement_def try_suite_def open_file_def readlines_def finally_suite_def
      close_def create_document_list_segments)

lemma try_statement_cp1252:
  "fs filepath = Some bs \<Longrightarrow> decode UTF8 bs = None \<Longrightarrow> decode CP1252 bs = Some s \<Longrightarrow>
     try_statement fs filepath filename w =
       (create_document_list (split_lines [] (universal_newlines s)),
        w\<lparr>handles := handles w @ [True, False]\<rparr>)"
  by (simp add: try_statement_def try_suite_def except_first_def open_file_def readlines_def
      finally_suite_def close_def create_document_list_segments nth_append list_update_append)

lemma try_statement_undecodable:
  "fs filepath = Some bs \<Longrightarrow> decode UTF8 bs = None \<Longrightarrow> decode CP1252 bs = None \<Longrightarrow>
     try_statement fs filepath filename w =
       (Inl UnboundLocalError, w\<lparr>handles := handles w @ [True, False]\<rparr>)"
  by (simp add: try_statement_def try_suite_def except_first_def open_file_def readlines_def
      finally_suite_def close_def nth_append list_update_append)

lemma try_statement_cases:
  obtains "fs filepath = None"
  | bs s where "fs filepath = Some bs" "decode UTF8 bs = Some s"
  | bs s where "fs filepath = Some bs" "decode UTF8 bs = None" "decode CP1252 bs = Some s"
  | bs where "fs filepath = Some bs" "decode UTF8 bs = None" "decode CP1252 bs = None"
  by (cases "fs filepath"; cases "decode UTF8 (the (fs filepath))";
      cases "decode CP1252 (the (fs filepath))") auto

lemma try_statement_fields:
  "stdout (snd (try_statement fs filepath filename w)) = stdout w"
  "stderr (snd (try_statement fs filepath filename w)) = stderr w"
  by (cases rule: try_statement_cases [of fs filepath];
      simp add: try_statement_no_file try_statement_utf8 try_statement_cp1252
        try_statement_undecodable)+

lemma try_statement_result_cong:
  assumes "fs filepath = fs' filepath'"
  shows "fst (try_statement fs filepath filename w) =
         fst (try_statement fs' filepath' filename' w')"
proof (cases rule: try_statement_cases [of fs filepath])
  case 1
  moreover from 1 assms have "fs' filepath' = None" by simp
  ultimately show ?thesis by (simp add: try_statement_no_file)
next
  case (2 bs s)
  moreover from 2 assms have "fs' filepath' = Some bs" by simp
  ultimately show ?thesis by (simp add: try_statement_utf8)
next
  case (3 bs s)
  moreover from 3 assms have "fs' filepath' = Some bs" by simp
  ultimately show ?thesis by (simp add: try_statement_cp1252)
next
  case (4 bs)
  moreover from 4 assms have "fs' filepath' = Some bs" by simp
  ultimately show ?thesis by (simp add: try_statement_undecodable)
qed

text \<open>The loop over the Documents.\<close>

lemma emit_documents_bad_filename:
  "count_list (take 10 filename) (of_char CHR ''_'') < 2 \<Longrightarrow>
     emit_documents NLP filename documents w =
       (if documents = [] then (None, w) else (Some IndexError, w))"
  by (cases documents) (simp_all add: print_header_eq)

lemma emit_documents_good_filename:
  "2 \<le> count_list (take 10 filename) (of_char CHR ''_'') \<Longrightarrow>
     fst (emit_documents NLP filename documents w) = None \<and>
     stdout (snd (emit_documents NLP filename documents w)) =
       stdout w @ concat (map (document_lines NLP filename) documents) \<and>
     stderr (snd (emit_documents NLP filename documents w)) = stderr w \<and>
     handles (snd (emit_documents NLP filename documents w)) = handles w"
proof (induction documents arbitrary: w)
  case Nil
  show ?case by simp
next
  case (Cons d documents)
  from Cons.prems have c: "\<not> count_list (take 10 filename) 95 < 2" by simp
  show ?case
    unfolding emit_documents.simps print_header_eq
    using Cons.IH [OF Cons.prems]
    by (simp add: c Let_def print_footer_def print_cwb_fields document_lines_def
        del: ustr_simps)
qed

lemma emit_documents_stdout_cong:
  "stdout w = stdout w' \<Longrightarrow>
     fst (emit_documents NLP filename documents w) =
       fst (emit_documents NLP filename documents w') \<and>
     stdout (snd (emit_documents NLP filename documents w)) =
       stdout (snd (emit_documents NLP filename documents w'))"
proof (cases "count_list (take 10 filename) (of_char CHR ''_'') < 2")
  case True
  assume "stdout w = stdout w'"
  with True show ?thesis by (simp add: emit_documents_bad_filename)
next
  case False
  assume "stdout w = stdout w'"
  with False show ?thesis by (simp add: emit_documents_good_filename)
qed

lemma emit_documents_stderr:
  "stderr (snd (emit_documents NLP filename documents w)) = stderr w"
  by (cases "count_list (take 10 filename) (of_char CHR ''_'') < 2")
    (simp_all add: emit_documents_bad_filename emit_documents_good_filename)

text \<open>
  \<open>main\<close> on each path. Nothing is ever written to the error stream: the second
  \<open>except\<close> clause is never selected. A file that decodes, under a filename whose first ten
  characters hold two \<open>_\<close>, gives exit status 0. The file object of the first \<open>open\<close> is
  closed when UTF-8 decodes, and left open when it does not.
\<close>

lemma main_eq:
  "main NLP fs input w =
     (case fst (try_statement fs input (last (split_str (of_char CHR ''/'') input)) w) of
        Inl e \<Rightarrow> (Some e, snd (try_statement fs input (last (split_str (of_char CHR ''/'') input)) w))
      | Inr documents \<Rightarrow>
          emit_documents NLP (last (split_str (of_char CHR ''/'') input)) documents
            (snd (try_statement fs input (last (split_str (of_char CHR ''/'') input)) w)))"
  by (simp add: main_def Let_def split: prod.splits sum.splits)

lemma main_stderr: "stderr (snd (main NLP fs input w)) = stderr w"
  unfolding main_eq
  by (cases "fst (try_statement fs input (last (split_str (of_char CHR ''/'') input)) w)")
    (simp_all add: try_statement_fields emit_documents_stderr)

lemma main_undecodable:
  "fs input = Some bs \<Longrightarrow> decode UTF8 bs = None \<Longrightarrow> decode CP1252 bs = None \<Longrightarrow>
     main NLP fs input w = (Some UnboundLocalError, w\<lparr>handles := handles w @ [True, False]\<rparr>)"
  unfolding main_eq by (simp add: try_statement_undecodable)

lemma main_utf8:
  "fs input = Some bs \<Longrightarrow> decode UTF8 bs = Some s \<Longrightarrow>
     main NLP fs input w =
       emit_documents NLP (last (split_str (of_char CHR ''/'') input))
         (segments (split_lines [] (universal_newlines s))
            (split_lines [] (universal_newlines s)) [])
         (w\<lparr>handles := handles w @ [False]\<rparr>)"
  unfolding main_eq by (simp add: try_statement_utf8 create_document_list_segments)

lemma main_cp1252:
  "fs input = Some bs \<Longrightarrow> decode UTF8 bs = None \<Longrightarrow> decode CP1252 bs = Some s \<Longrightarrow>
     main NLP fs input w =
       emit_documents NLP (last (split_str (of_char CHR ''/'') input))
         (segments (split_lines [] (universal_newlines s))
            (split_lines [] (universal_newlines s)) [])
         (w\<lparr>handles := handles w @ [True, False]\<rparr>)"
  unfolding main_eq by (simp add: try_statement_cp1252 create_document_list_segments)

lemma main_decodable_exit_code:
  assumes "fs input = Some bs"
    and "decode UTF8 bs = Some s \<or> decode UTF8 bs = None \<and> decode CP1252 bs = Some s"
    and "2 \<le> count_list (take 10 (last (split_str (of_char CHR ''/'') input))) (of_char CHR ''_'')"
  shows "exit_code (fst (main NLP fs input w)) = 0"
  using assms
  by (auto simp add: main_utf8 main_cp1252 emit_documents_good_filename exit_code_def
      simp del: ustr_simps)

lemma main_handles_utf8:
  "fs input = Some bs \<Longrightarrow> decode UTF8 bs = Some s \<Longrightarrow>
     handles (snd (main NLP fs input w)) = handles w @ [False]"
  by (cases "count_list (take 10 (last (split_str (of_char CHR ''/'') input))) (of_char CHR ''_'') < 2")
    (simp_all add: main_utf8 emit_documents_bad_filename emit_documents_good_filename
      del: ustr_simps)

lemma main_handles_cp1252:
  "fs input = Some bs \<Longrightarrow> decode UTF8 bs = None \<Longrightarrow>
     handles (snd (main NLP fs input w)) = handles w @ [True, False]"
  by (cases "decode CP1252 bs";
      cases "count_list (take 10 (last (split_str (of_char CHR ''/'') input))) (of_char CHR ''_'') < 2")
    (simp_all add: main_cp1252 main_undecodable emit_documents_bad_filename
      emit_documents_good_filename del: ustr_simps)

text \<open>The scenario of the specification, for any pipeline.\<close>

lemma scenario_segments:
  "segments (split_lines [] (universal_newlines
       (ustr ''Headline Text\<newline>\<newline>Body line one. Body line two.\<newline>'')))
     (split_lines [] (universal_newlines
       (ustr ''Headline Text\<newline>\<newline>Body line one. Body line two.\<newline>''))) [] =
   [\<lparr>header = ustr ''Headline Text'', body = []\<rparr>,
    \<lparr>header = ustr ''Body line one. Body line two.'', body = []\<rparr>]"
  "segments (split_lines [] (universal_newlines
       (ustr ''Headline Text\<newline>\<newline>Body line one. Body line two.'')))
     (split_lines [] (universal_newlines
       (ustr ''Headline Text\<newline>\<newline>Body line one. Body line two.''))) [] =
   [\<lparr>header = ustr ''Headline Text'', body = []\<rparr>,
    \<lparr>header = ustr ''Body line one. Body line two.'', body = []\<rparr>]"
  by (simp_all add: boundary_def rstrip_def isspace_def)

lemma scenario_decode:
  "decode UTF8 (ascii_bytes ''Headline Text\<newline>\<newline>Body line one. Body line two.\<newline>'') =
     Some (ustr ''Headline Text\<newline>\<newline>Body line one. Body line two.\<newline>'')"
  "decode UTF8 (ascii_bytes ''Headline Text\<newline>\<newline>Body line one. Body line two.'') =
     Some (ustr ''Headline Text\<newline>\<newline>Body line one. Body line two.'')"
  by (simp_all add: decode_def ascii_bytes_def)

lemma toy_cwb_lines:
  "cwb_lines toy_NLP (ustr ''Headline Text'') (ustr ''<h1>'') =
     [ustr ''<h1>'', ustr ''Headline'' @ [9] @ ustr ''X'' @ [9] @ ustr ''Headline'',
      ustr ''Text'' @ [9] @ ustr ''X'' @ [9] @ ustr ''Text'', ustr ''</h1>'']"
  "cwb_lines toy_NLP (ustr ''Body line one. Body line two.'') (ustr ''<h1>'') =
     [ustr ''<h1>'', ustr ''Body'' @ [9] @ ustr ''X'' @ [9] @ ustr ''Body'',
      ustr ''line'' @ [9] @ ustr ''X'' @ [9] @ ustr ''line'',
      ustr ''one.'' @ [9] @ ustr ''X'' @ [9] @ ustr ''one.'', ustr ''</h1>'',
      ustr ''<h1>'', ustr ''Body'' @ [9] @ ustr ''X'' @ [9] @ ustr ''Body'',
      ustr ''line'' @ [9] @ ustr ''X'' @ [9] @ ustr ''line'',
      ustr ''two.'' @ [9] @ ustr ''X'' @ [9] @ ustr ''two.'', ustr ''</h1>'']"
  "cwb_lines toy_NLP [] (ustr ''<s>'') = []"
  by (simp_all add: cwb_lines_def sentence_lines_def token_line_def toy_NLP_def toy_tokens_def
      replace_def isspace_def)

text \<open>
  C2, as amended. For the input file named \<open>2017_11_03_example-text.txt\<close> whose content is
  the line \<open>Headline Text\<close>, a blank line and the line \<open>Body line one. Body line two.\<close>
  (with or without a final newline), the program returns normally and writes two
  \<open><text>\<close> blocks, because the blank line ends the first document: the open tag, the
  sentences of \<open>Headline Text\<close> under \<open><h1>\<close>, the annotation of the empty body and
  \<open></text>\<close>; then the same open tag, the sentences of the third line under \<open><h1>\<close>
  (it is the headline of the second document), the annotation of the empty body and
  \<open></text>\<close>.
\<close>

theorem main_scenario:
  assumes \<open>fs input =
             Some (ascii_bytes ''Headline Text\<newline>\<newline>Body line one. Body line two.\<newline>'') \<or>
           fs input =
             Some (ascii_bytes ''Headline Text\<newline>\<newline>Body line one. Body line two.'')\<close>
    and \<open>last (split_str (of_char CHR ''/'') input) = ustr ''2017_11_03_example-text.txt''\<close>
  shows \<open>fst (main NLP fs input w) = None \<and>
         stdout (snd (main NLP fs input w)) =
           stdout w @
           [ustr ''<text id="2017_11_03_example_text" date="2017_11_03" year="2017" month="11" day="03">''] @
           cwb_lines NLP (ustr ''Headline Text'') (ustr ''<h1>'') @
           cwb_lines NLP [] (ustr ''<s>'') @
           [ustr ''</text>''] @
           [ustr ''<text id="2017_11_03_example_text" date="2017_11_03" year="2017" month="11" day="03">''] @
           cwb_lines NLP (ustr ''Body line one. Body line two.'') (ustr ''<h1>'') @
           cwb_lines NLP [] (ustr ''<s>'') @
           [ustr ''</text>'']\<close>
proof -
  let ?fn = "ustr ''2017_11_03_example-text.txt''"
  let ?docs = "[\<lparr>header = ustr ''Headline Text'', body = []\<rparr>,
    \<lparr>header = ustr ''Body line one. Body line two.'', body = []\<rparr>]"
  have m: "main NLP fs input w = emit_documents NLP ?fn ?docs (w\<lparr>handles := handles w @ [False]\<rparr>)"
    using assms(1)
  proof
    assume a: "fs input =
      Some (ascii_bytes ''Headline Text\<newline>\<newline>Body line one. Body line two.\<newline>'')"
    show ?thesis
      unfolding main_utf8 [where fs = fs and input = input, OF a scenario_decode(1)] scenario_segments assms(2) ..
  next
    assume a: "fs input =
      Some (ascii_bytes ''Headline Text\<newline>\<newline>Body line one. Body line two.'')"
    show ?thesis
      unfolding main_utf8 [where fs = fs and input = input, OF a scenario_decode(2)] scenario_segments assms(2) ..
  qed
  have c: "2 \<le> count_list (take 10 ?fn) (of_char CHR ''_'')" by simp
  have d: "concat (map (document_lines NLP ?fn) ?docs) =
           [ustr ''<text id=\"2017_11_03_example_text\" date=\"2017_11_03\" year=\"2017\" month=\"11\" day=\"03\">''] @
           cwb_lines NLP (ustr ''Headline Text'') (ustr ''<h1>'') @
           cwb_lines NLP [] (ustr ''<s>'') @
           [ustr ''</text>''] @
           [ustr ''<text id=\"2017_11_03_example_text\" date=\"2017_11_03\" year=\"2017\" month=\"11\" day=\"03\">''] @
           cwb_lines NLP (ustr ''Body line one. Body line two.'') (ustr ''<h1>'') @
           cwb_lines NLP [] (ustr ''<s>'') @
           [ustr ''</text>'']"
    by (simp add: document_lines_def replace_def)
  show ?thesis
    unfolding m using emit_documents_good_filename [OF c, of NLP ?docs "w\<lparr>handles := handles w @ [False]\<rparr>"]
    by (simp only: d) simp
qed

text \<open>The theorem with the test double, on the file without a final newline.\<close>

theorem main_scenario_witness:
  \<open>fst (main toy_NLP
     [ustr ''corpus/2017_11_03_example-text.txt'' \<mapsto>
        ascii_bytes ''Headline Text\<newline>\<newline>Body line one. Body line two.'']
     (ustr ''corpus/2017_11_03_example-text.txt'') world0) = None \<and>
   stdout (snd (main toy_NLP
     [ustr ''corpus/2017_11_03_example-text.txt'' \<mapsto>
        ascii_bytes ''Headline Text\<newline>\<newline>Body line one. Body line two.'']
     (ustr ''corpus/2017_11_03_example-text.txt'') world0)) =
     [ustr ''<text id="2017_11_03_example_text" date="2017_11_03" year="2017" month="11" day="03">'',
      ustr ''<h1>'', ustr ''Headline'' @ [9] @ ustr ''X'' @ [9] @ ustr ''Headline'',
      ustr ''Text'' @ [9] @ ustr ''X'' @ [9] @ ustr ''Text'', ustr ''</h1>'',
      ustr ''</text>'',
      ustr ''<text id="2017_11_03_example_text" date="2017_11_03" year="2017" month="11" day="03">'',
      ustr ''<h1>'', ustr ''Body'' @ [9] @ ustr ''X'' @ [9] @ ustr ''Body'',
      ustr ''line'' @ [9] @ ustr ''X'' @ [9] @ ustr ''line'',
      ustr ''one.'' @ [9] @ ustr ''X'' @ [9] @ ustr ''one.'', ustr ''</h1>'',
      ustr ''<h1>'', ustr ''Body'' @ [9] @ ustr ''X'' @ [9] @ ustr ''Body'',
      ustr ''line'' @ [9] @ ustr ''X'' @ [9] @ ustr ''line'',
      ustr ''two.'' @ [9] @ ustr ''X'' @ [9] @ ustr ''two.'', ustr ''</h1>'',
      ustr ''</text>'']\<close>
proof -
  let ?fs = "[ustr ''corpus/2017_11_03_example-text.txt'' \<mapsto>
        ascii_bytes ''Headline Text\<newline>\<newline>Body line one. Body line two.'']"
  let ?input = "ustr ''corpus/2017_11_03_example-text.txt''"
  have a: "?fs ?input =
             Some (ascii_bytes ''Headline Text\<newline>\<newline>Body line one. Body line two.\<newline>'') \<or>
           ?fs ?input =
             Some (ascii_bytes ''Headline Text\<newline>\<newline>Body line one. Body line two.'')"
    by simp
  have b: "last (split_str (of_char CHR ''/'') ?input) = ustr ''2017_11_03_example-text.txt''"
    by simp
  show ?thesis
    using main_scenario [of ?fs ?input toy_NLP world0, OF a b]
    by (simp only: toy_cwb_lines) (simp add: world0_def)
qed

text \<open>
  The claim as written (exactly one \<open><text>\<close> block, the body sentences under \<open><s>\<close>)
  fails: with the test double the output holds \<open></text>\<close> twice, and the two body
  sentences are under \<open><h1>\<close>.
\<close>

theorem main_scenario_two_text_blocks:
  \<open>count_list
     (stdout (snd (main toy_NLP
        [ustr ''2017_11_03_example-text.txt'' \<mapsto>
           ascii_bytes ''Headline Text\<newline>\<newline>Body line one. Body line two.\<newline>'']
        (ustr ''2017_11_03_example-text.txt'') world0)))
     (ustr ''</text>'') = 2 \<and>
   stdout (snd (main toy_NLP
     [ustr ''2017_11_03_example-text.txt'' \<mapsto>
        ascii_bytes ''Headline Text\<newline>\<newline>Body line one. Body line two.\<newline>'']
     (ustr ''2017_11_03_example-text.txt'') world0)) =
     [ustr ''<text id="2017_11_03_example_text" date="2017_11_03" year="2017" month="11" day="03">'',
      ustr ''<h1>'', ustr ''Headline'' @ [9] @ ustr ''X'' @ [9] @ ustr ''Headline'',
      ustr ''Text'' @ [9] @ ustr ''X'' @ [9] @ ustr ''Text'', ustr ''</h1>'',
      ustr ''</text>'',
      ustr ''<text id="2017_11_03_example_text" date="2017_11_03" year="2017" month="11" day="03">'',
      ustr ''<h1>'', ustr ''Body'' @ [9] @ ustr ''X'' @ [9] @ ustr ''Body'',
      ustr ''line'' @ [9] @ ustr ''X'' @ [9] @ ustr ''line'',
      ustr ''one.'' @ [9] @ ustr ''X'' @ [9] @ ustr ''one.'', ustr ''</h1>'',
      ustr ''<h1>'', ustr ''Body'' @ [9] @ ustr ''X'' @ [9] @ ustr ''Body'',
      ustr ''line'' @ [9] @ ustr ''X'' @ [9] @ ustr ''line'',
      ustr ''two.'' @ [9] @ ustr ''X'' @ [9] @ ustr ''two.'', ustr ''</h1>'',
      ustr ''</text>'']\<close>
proof -
  let ?fs = "[ustr ''2017_11_03_example-text.txt'' \<mapsto>
        ascii_bytes ''Headline Text\<newline>\<newline>Body line one. Body line two.\<newline>'']"
  let ?input = "ustr ''2017_11_03_example-text.txt''"
  let ?docs = "[\<lparr>header = ustr ''Headline Text'', body = []\<rparr>,
    \<lparr>header = ustr ''Body line one. Body line two.'', body = []\<rparr>]"
  have a: "?fs ?input =
      Some (ascii_bytes ''Headline Text\<newline>\<newline>Body line one. Body line two.\<newline>'')"
    by simp
  have b: "last (split_str (of_char CHR ''/'') ?input) = ?input"
    by simp
  have m: "main toy_NLP ?fs ?input world0 =
      emit_documents toy_NLP ?input ?docs (world0\<lparr>handles := handles world0 @ [False]\<rparr>)"
    unfolding main_utf8 [where fs = ?fs and input = ?input, OF a scenario_decode(1)]
      scenario_segments b ..
  have c: "2 \<le> count_list (take 10 ?input) (of_char CHR ''_'')" by simp
  have d: "concat (map (document_lines toy_NLP ?input) ?docs) =
     [ustr ''<text id=\"2017_11_03_example_text\" date=\"2017_11_03\" year=\"2017\" month=\"11\" day=\"03\">'',
      ustr ''<h1>'', ustr ''Headline'' @ [9] @ ustr ''X'' @ [9] @ ustr ''Headline'',
      ustr ''Text'' @ [9] @ ustr ''X'' @ [9] @ ustr ''Text'', ustr ''</h1>'',
      ustr ''</text>'',
      ustr ''<text id=\"2017_11_03_example_text\" date=\"2017_11_03\" year=\"2017\" month=\"11\" day=\"03\">'',
      ustr ''<h1>'', ustr ''Body'' @ [9] @ ustr ''X'' @ [9] @ ustr ''Body'',
      ustr ''line'' @ [9] @ ustr ''X'' @ [9] @ ustr ''line'',
      ustr ''one.'' @ [9] @ ustr ''X'' @ [9] @ ustr ''one.'', ustr ''</h1>'',
      ustr ''<h1>'', ustr ''Body'' @ [9] @ ustr ''X'' @ [9] @ ustr ''Body'',
      ustr ''line'' @ [9] @ ustr ''X'' @ [9] @ ustr ''line'',
      ustr ''two.'' @ [9] @ ustr ''X'' @ [9] @ ustr ''two.'', ustr ''</h1>'',
      ustr ''</text>'']"
    unfolding list.map concat.simps document_lines_def Document.simps toy_cwb_lines
    by (simp add: replace_def)
  show ?thesis
    unfolding m
    using emit_documents_good_filename [OF c, of toy_NLP ?docs
        "world0\<lparr>handles := handles world0 @ [False]\<rparr>"]
    by (simp only: d) (simp add: world0_def)
qed

text \<open>
  C3. The claim: a file that decodes under neither encoding gives one diagnostic line on the
  error stream and exit status 1. On the file whose content is the byte 0x81 (invalid in
  UTF-8, undefined in Windows-1252) the second decoding error is raised inside the first
  \<open>except\<close> clause, so the second clause does not handle it; the \<open>finally\<close> clause then
  reads the unbound name \<open>lines\<close>. The program dies of an uncaught UnboundLocalError
  (exit status 1) and has written nothing to the error stream.
\<close>

theorem main_undecodable_no_diagnostic:
  "main NLP [ustr ''2017_11_03_example-text.txt'' \<mapsto> [0x81]]
     (ustr ''2017_11_03_example-text.txt'') world0 =
     (Some UnboundLocalError,
      \<lparr>stdout = [], stderr = [], handles = [True, False], nlp_calls = []\<rparr>) \<and>
   exit_code (Some UnboundLocalError) = 1"
proof -
  have "decode UTF8 [0x81] = None" and "decode CP1252 [0x81] = None"
    by (simp_all add: decode_def is_cont_def cp1252_char_def cp1252_table_def)
  then show ?thesis
    using main_undecodable [of "[ustr ''2017_11_03_example-text.txt'' \<mapsto> [0x81]]"
        "ustr ''2017_11_03_example-text.txt''" "[0x81]" NLP world0]
    by (simp add: world0_def exit_code_def)
qed

text \<open>
  C8. The claim: every file object opened on the input file is closed before segmentation.
  On the file whose content is the byte 0xE9 (invalid in UTF-8, \<open>U+00E9\<close> in Windows-1252)
  the first \<open>except\<close> clause rebinds \<open>input_doc\<close> to a second file object, and the
  \<open>finally\<close> clause closes only that one: the program returns normally and the first file
  object was never closed.
\<close>

theorem main_fallback_leaves_handle_open:
  "fst (main NLP [ustr ''2017_11_03_example-text.txt'' \<mapsto> [0xE9]]
          (ustr ''2017_11_03_example-text.txt'') world0) = None \<and>
   handles (snd (main NLP [ustr ''2017_11_03_example-text.txt'' \<mapsto> [0xE9]]
          (ustr ''2017_11_03_example-text.txt'') world0)) = [True, False]"
proof -
  have "decode UTF8 [0xE9] = None" and "decode CP1252 [0xE9] = Some [233]"
    by (simp_all add: decode_def is_cont_def cp1252_char_def cp1252_table_def)
  then have "main NLP [ustr ''2017_11_03_example-text.txt'' \<mapsto> [0xE9]]
          (ustr ''2017_11_03_example-text.txt'') world0 =
       emit_documents NLP (ustr ''2017_11_03_example-text.txt'')
         (segments (split_lines [] (universal_newlines [233]))
            (split_lines [] (universal_newlines [233])) [])
         (world0\<lparr>handles := handles world0 @ [True, False]\<rparr>)"
    using main_cp1252 [of "[ustr ''2017_11_03_example-text.txt'' \<mapsto> [0xE9]]"
        "ustr ''2017_11_03_example-text.txt''" "[0xE9]" "[233]" NLP world0]
    by simp
  moreover have "2 \<le> count_list (take 10 (ustr ''2017_11_03_example-text.txt'')) (of_char CHR ''_'')"
    by simp
  ultimately show ?thesis
    by (simp add: emit_documents_good_filename world0_def del: ustr_simps)
qed

text \<open>
  C9. For every pipeline (a function: the same text gives the same analysis), the standard
  output of a run, and whether and how it fails, are determined by the content of the file and
  the filename (the last component of the path): two runs on files of the same content and
  filename, starting with the same output written so far, write the same output, whatever
  the directories, the other files and the file objects opened before.
\<close>

theorem main_output_determined:
  assumes "fs input = fs' input'"
    and "last (split_str (of_char CHR ''/'') input) = last (split_str (of_char CHR ''/'') input')"
    and "stdout w = stdout w'"
  shows "stdout (snd (main NLP fs input w)) = stdout (snd (main NLP fs' input' w')) \<and>
         fst (main NLP fs input w) = fst (main NLP fs' input' w')"
proof -
  let ?fn = "last (split_str (of_char CHR ''/'') input)"
  let ?r = "try_statement fs input ?fn w"
  let ?r' = "try_statement fs' input' ?fn w'"
  have f: "fst ?r = fst ?r'"
    using assms(1) by (rule try_statement_result_cong)
  have o: "stdout (snd ?r) = stdout (snd ?r')"
    using assms(3) by (simp add: try_statement_fields)
  show ?thesis
  proof (cases "fst ?r")
    case (Inl e)
    with f o show ?thesis
      unfolding main_eq assms(2) [symmetric] by simp
  next
    case (Inr documents)
    with f emit_documents_stdout_cong [OF o, of NLP ?fn documents] show ?thesis
      unfolding main_eq assms(2) [symmetric] by simp
  qed
qed

text \<open>The theorem at the same file under two paths.\<close>

theorem main_output_determined_witness:
  "stdout (snd (main toy_NLP
      [ustr ''a/2017_11_03_example-text.txt'' \<mapsto> ascii_bytes ''Hola mundo.'']
      (ustr ''a/2017_11_03_example-text.txt'') world0)) =
   stdout (snd (main toy_NLP
      [ustr ''b/c/2017_11_03_example-text.txt'' \<mapsto> ascii_bytes ''Hola mundo.'']
      (ustr ''b/c/2017_11_03_example-text.txt'') (world0\<lparr>handles := [False]\<rparr>)))"
  using main_output_determined [of
      "[ustr ''a/2017_11_03_example-text.txt'' \<mapsto> ascii_bytes ''Hola mundo.'']"
      "ustr ''a/2017_11_03_example-text.txt''"
      "[ustr ''b/c/2017_11_03_example-text.txt'' \<mapsto> ascii_bytes ''Hola mundo.'']"
      "ustr ''b/c/2017_11_03_example-text.txt''"
      world0 "world0\<lparr>handles := [False]\<rparr>" toy_NLP]
  by simp

end
